theory Spec2Isabelle
  imports Complex_Main
begin

section \<open>Records of the dashboard\<close>

text \<open>
  The page \<^verbatim>\<open>client/pages/Statistics.tsx\<close> computes its figures inside one
  \<^verbatim>\<open>useMemo\<close> block over the worker and room collections, which arrive already
  filtered to the caller's farms. The record types come from \<^verbatim>\<open>@shared/types\<close>.
\<close>

text \<open>
  Modelled from the spec: the declarations of \<^verbatim>\<open>Worker\<close> and \<^verbatim>\<open>Room\<close> in
  \<^verbatim>\<open>@shared/types\<close>, which are not among the files (data model, section 3). The field
  names are the ones the page reads; the name of a worker, the identity of a room and
  its number are not read by the page and carry the names \<open>nom\<close>, \<open>roomId\<close> and
  \<open>roomNumber\<close>, and the farm of a room is \<open>roomFermeId\<close>, since a worker has a
  \<open>fermeId\<close> too. A status is one of two values, a sex is one of two values, a room's
  gender restriction is one of two values, ages and stored occupant counts are integers
  and a capacity is an integer that is not negative.
\<close>

datatype worker_statut = Actif | Inactif

datatype worker_sexe = Homme | Femme

datatype room_genre = Hommes | Femmes

text \<open>
  A date field holds a string. The page looks at such a string in two ways only: whether
  it is truthy (present and not empty), and which time value \<^verbatim>\<open>new Date(s)\<close> gives
  for it. \<open>NoDate\<close> is the absent or empty string, \<open>BadDate\<close> a string that is
  present but that \<^verbatim>\<open>Date\<close> cannot parse (an Invalid Date, time value NaN), and
  \<open>DateAt t\<close> a string that parses to the time value \<open>t\<close>, in milliseconds since the
  epoch.
\<close>

datatype datestr = NoDate | BadDate | DateAt int

record worker =
  nom :: string
  fermeId :: string
  statut :: worker_statut
  sexe :: worker_sexe
  age :: int
  dateEntree :: datestr
  dateSortie :: datestr
  motif :: "string option"
  chambre :: "string option"

record room =
  roomId :: string
  roomFermeId :: string
  roomNumber :: string
  genre :: room_genre
  capaciteTotale :: nat
  occupantsActuels :: int

text \<open>Truthiness of the optional strings, and the time value of a date string.\<close>

fun truthy_str :: "string option \<Rightarrow> bool" where
  "truthy_str None = False"
| "truthy_str (Some s) = (s \<noteq> [])"

fun truthy_date :: "datestr \<Rightarrow> bool" where
  "truthy_date NoDate = False"
| "truthy_date BadDate = True"
| "truthy_date (DateAt t) = True"

fun new_Date :: "datestr \<Rightarrow> int option" where
  "new_Date NoDate = None"
| "new_Date BadDate = None"
| "new_Date (DateAt t) = Some t"

section \<open>Partitions of the collections\<close>

definition activeWorkers :: "worker list \<Rightarrow> worker list" where
  "activeWorkers workers = filter (\<lambda>w. statut w = Actif) workers"

definition inactiveWorkers :: "worker list \<Rightarrow> worker list" where
  "inactiveWorkers workers = filter (\<lambda>w. statut w = Inactif) workers"

definition exitedWorkers :: "worker list \<Rightarrow> worker list" where
  "exitedWorkers workers =
     filter (\<lambda>w. statut w = Inactif \<and> truthy_date (dateSortie w)) workers"

definition maleWorkers :: "worker list \<Rightarrow> worker list" where
  "maleWorkers workers = filter (\<lambda>w. sexe w = Homme) (activeWorkers workers)"

definition femaleWorkers :: "worker list \<Rightarrow> worker list" where
  "femaleWorkers workers = filter (\<lambda>w. sexe w = Femme) (activeWorkers workers)"

definition maleRooms :: "room list \<Rightarrow> room list" where
  "maleRooms rooms = filter (\<lambda>r. genre r = Hommes) rooms"

definition femaleRooms :: "room list \<Rightarrow> room list" where
  "femaleRooms rooms = filter (\<lambda>r. genre r = Femmes) rooms"

definition occupiedRooms :: "room list \<Rightarrow> room list" where
  "occupiedRooms rooms = filter (\<lambda>r. occupantsActuels r > 0) rooms"

definition fullRooms :: "room list \<Rightarrow> room list" where
  "fullRooms rooms = filter (\<lambda>r. occupantsActuels r \<ge> int (capaciteTotale r)) rooms"

definition emptyRooms :: "room list \<Rightarrow> room list" where
  "emptyRooms rooms = filter (\<lambda>r. occupantsActuels r = 0) rooms"

definition totalCapacity :: "room list \<Rightarrow> nat" where
  "totalCapacity rooms = foldl (\<lambda>sum r. sum + capaciteTotale r) 0 rooms"

section \<open>Occupied places, from the worker assignments\<close>

text \<open>
  \<^verbatim>\<open>workerRoomMap\<close> is a JavaScript \<^verbatim>\<open>Map\<close> from the room key (a string) to a
  count. A \<^verbatim>\<open>Map\<close> keeps its keys in the order of their first insertion, and
  \<^verbatim>\<open>set\<close> on a key that is present replaces the value where it stands: an
  association list with update in place.
\<close>

fun Map_get :: "('k \<times> 'v) list \<Rightarrow> 'k \<Rightarrow> 'v option" where
  "Map_get [] k = None"
| "Map_get ((k', v) # m) k = (if k' = k then Some v else Map_get m k)"

fun Map_set :: "('k \<times> 'v) list \<Rightarrow> 'k \<Rightarrow> 'v \<Rightarrow> ('k \<times> 'v) list" where
  "Map_set [] k v = [(k, v)]"
| "Map_set ((k', v') # m) k v = (if k' = k then (k, v) # m else (k', v') # Map_set m k v)"

definition Map_values :: "('k \<times> 'v) list \<Rightarrow> 'v list" where
  "Map_values m = map snd m"

text \<open>\<^verbatim>\<open>m.get(k) || 0\<close>: a missing key and a stored zero both read as zero.\<close>

definition get_or_0 :: "('k \<times> nat) list \<Rightarrow> 'k \<Rightarrow> nat" where
  "get_or_0 m k = (case Map_get m k of None \<Rightarrow> 0 | Some c \<Rightarrow> c)"

text \<open>The counting step \<^verbatim>\<open>m.set(k, (m.get(k) || 0) + 1)\<close>.\<close>

definition incr_key :: "('k \<times> nat) list \<Rightarrow> 'k \<Rightarrow> ('k \<times> nat) list" where
  "incr_key m k = Map_set m k (get_or_0 m k + 1)"

definition workerGenderType :: "worker \<Rightarrow> string" where
  "workerGenderType w = (if sexe w = Homme then ''hommes'' else ''femmes'')"

text \<open>The template literal \<^verbatim>\<open>`${fermeId}-${chambre}-${workerGenderType}`\<close>.\<close>

definition roomKey :: "worker \<Rightarrow> string" where
  "roomKey w =
     fermeId w @ ''-'' @ (case chambre w of None \<Rightarrow> ''undefined'' | Some c \<Rightarrow> c) @ ''-''
       @ workerGenderType w"

definition housed :: "worker \<Rightarrow> bool" where
  "housed w = (statut w = Actif \<and> truthy_str (chambre w))"

definition workerRoomMap :: "worker list \<Rightarrow> (string \<times> nat) list" where
  "workerRoomMap workers =
     foldl (\<lambda>m w. incr_key m (roomKey w)) [] (filter housed workers)"

definition occupiedPlaces :: "worker list \<Rightarrow> nat" where
  "occupiedPlaces workers =
     foldl (\<lambda>sum count. sum + count) 0 (Map_values (workerRoomMap workers))"

definition availablePlaces :: "worker list \<Rightarrow> room list \<Rightarrow> int" where
  "availablePlaces workers rooms = int (totalCapacity rooms) - int (occupiedPlaces workers)"

text \<open>
  JavaScript numbers are modelled by exact values: counts by naturals and integers,
  quotients and percentages by rationals. The rounding of IEEE 754 doubles is left out.
\<close>

definition occupancyRate :: "worker list \<Rightarrow> room list \<Rightarrow> rat" where
  "occupancyRate workers rooms =
     (if totalCapacity rooms > 0
      then (of_nat (occupiedPlaces workers) / of_nat (totalCapacity rooms)) * 100
      else 0)"

section \<open>Time values and the Date methods\<close>

text \<open>
  The page builds its cutoff with \<^verbatim>\<open>new Date()\<close>, \<^verbatim>\<open>getDate\<close>,
  \<^verbatim>\<open>setDate\<close>, \<^verbatim>\<open>getFullYear\<close> and \<^verbatim>\<open>setFullYear\<close>. These are
  built-ins of the language; they are written out here after ECMA-262 (section
  "Date Objects"), over integer time values in milliseconds since the epoch.
\<close>

definition msPerDay :: int where
  "msPerDay = 86400000"

definition Day :: "int \<Rightarrow> int" where
  "Day t = t div msPerDay"

definition TimeWithinDay :: "int \<Rightarrow> int" where
  "TimeWithinDay t = t mod msPerDay"

definition DaysInYear :: "int \<Rightarrow> int" where
  "DaysInYear y =
     (if y mod 4 \<noteq> 0 then 365
      else if y mod 100 \<noteq> 0 then 366
      else if y mod 400 \<noteq> 0 then 365
      else 366)"

definition DayFromYear :: "int \<Rightarrow> int" where
  "DayFromYear y =
     365 * (y - 1970) + (y - 1969) div 4 - (y - 1901) div 100 + (y - 1601) div 400"

lemma div_step:
  fixes a n :: int
  assumes n: "0 < n"
  shows "(a + 1) div n = a div n + (if (a + 1) mod n = 0 then 1 else 0)"
proof -
  have e: "n * (a div n) + a mod n = a" by simp
  have d: "n * (a div n + 1) = n * (a div n) + n" by (simp add: algebra_simps)
  have r: "0 \<le> a mod n" "a mod n < n" using n by simp_all
  show ?thesis
  proof (cases "a mod n + 1 = n")
    case True
    with e d have eq: "a + 1 = n * (a div n + 1) + 0" by linarith
    have "(a + 1) div n = a div n + 1" and "(a + 1) mod n = 0"
      using int_div_pos_eq [OF eq] int_mod_pos_eq [OF eq] n by simp_all
    then show ?thesis by simp
  next
    case False
    with r have lt: "a mod n + 1 < n" by linarith
    from e have eq: "a + 1 = n * (a div n) + (a mod n + 1)" by linarith
    have "(a + 1) div n = a div n" and "(a + 1) mod n = a mod n + 1"
      using int_div_pos_eq [OF eq _ lt] int_mod_pos_eq [OF eq _ lt] r by simp_all
    with r show ?thesis by simp
  qed
qed

lemma mod_shift:
  fixes y :: int
  shows "(y - k * n) mod n = y mod n"
  using mod_diff_right_eq [of y "k * n" n] by simp

lemma div4_step:
  "(y - 1968) div 4 = (y - 1969) div (4::int) + (if y mod 4 = 0 then 1 else 0)"
  using div_step [of 4 "y - 1969"] mod_shift [of y 492 4] by simp

lemma div100_step:
  "(y - 1900) div 100 = (y - 1901) div (100::int) + (if y mod 100 = 0 then 1 else 0)"
  using div_step [of 100 "y - 1901"] mod_shift [of y 19 100] by simp

lemma div400_step:
  "(y - 1600) div 400 = (y - 1601) div (400::int) + (if y mod 400 = 0 then 1 else 0)"
  using div_step [of 400 "y - 1601"] mod_shift [of y 4 400] by simp

lemma mod100_mod4: "(y::int) mod 100 = 0 \<Longrightarrow> y mod 4 = 0"
  using mod_mod_cancel [of 4 100 y] by simp

lemma mod400_mod100: "(y::int) mod 400 = 0 \<Longrightarrow> y mod 100 = 0"
  using mod_mod_cancel [of 100 400 y] by simp

lemma DayFromYear_Suc: "DayFromYear (y + 1) = DayFromYear y + DaysInYear y"
proof -
  have "DayFromYear (y + 1) =
          365 * (y - 1969) + (y - 1968) div 4 - (y - 1900) div 100 + (y - 1600) div 400"
    by (simp add: DayFromYear_def)
  also have "\<dots> = DayFromYear y + DaysInYear y"
    using mod100_mod4 [of y] mod400_mod100 [of y]
    by (auto simp add: div4_step div100_step div400_step DayFromYear_def DaysInYear_def)
  finally show ?thesis .
qed

lemma DaysInYear_pos: "365 \<le> DaysInYear y"
  by (simp add: DaysInYear_def)

text \<open>
  \<^verbatim>\<open>YearFromTime(t)\<close> is the largest year \<open>y\<close> with \<^verbatim>\<open>TimeFromYear(y) \<le> t\<close>:
  a search upwards from a year that is not after it.
\<close>

function year_search :: "int \<Rightarrow> int \<Rightarrow> int" where
  "year_search d y = (if DayFromYear (y + 1) \<le> d then year_search d (y + 1) else y)"
  by pat_completeness auto
termination
proof (relation "measure (\<lambda>(d, y). nat (d + 1 - DayFromYear (y + 1)))")
  show "wf (measure (\<lambda>(d, y). nat (d + 1 - DayFromYear (y + 1))))"
    by simp
next
  fix d y :: int
  assume le: "DayFromYear (y + 1) \<le> d"
  have "DayFromYear (y + 1 + 1) = DayFromYear (y + 1) + DaysInYear (y + 1)"
    by (rule DayFromYear_Suc)
  with DaysInYear_pos [of "y + 1"] have "DayFromYear (y + 1) < DayFromYear (y + 1 + 1)"
    by linarith
  with le show "((d, y + 1), (d, y)) \<in> measure (\<lambda>(d, y). nat (d + 1 - DayFromYear (y + 1)))"
    by simp
qed

declare year_search.simps [simp del]

definition YearFromTime :: "int \<Rightarrow> int" where
  "YearFromTime t =
     year_search (Day t) (1970 + min (Day t div 365) (Day t div 366))"

definition InLeapYear :: "int \<Rightarrow> int" where
  "InLeapYear t = (if DaysInYear (YearFromTime t) = 366 then 1 else 0)"

definition DayWithinYear :: "int \<Rightarrow> int" where
  "DayWithinYear t = Day t - DayFromYear (YearFromTime t)"

definition MonthFromTime :: "int \<Rightarrow> int" where
  "MonthFromTime t =
     (let d = DayWithinYear t; l = InLeapYear t in
      if d < 31 then 0
      else if d < 59 + l then 1
      else if d < 90 + l then 2
      else if d < 120 + l then 3
      else if d < 151 + l then 4
      else if d < 181 + l then 5
      else if d < 212 + l then 6
      else if d < 243 + l then 7
      else if d < 273 + l then 8
      else if d < 304 + l then 9
      else if d < 334 + l then 10
      else 11)"

definition DateFromTime :: "int \<Rightarrow> int" where
  "DateFromTime t =
     (let d = DayWithinYear t; l = InLeapYear t; m = MonthFromTime t in
      if m = 0 then d + 1
      else if m = 1 then d - 30
      else if m = 2 then d - 58 - l
      else if m = 3 then d - 89 - l
      else if m = 4 then d - 119 - l
      else if m = 5 then d - 150 - l
      else if m = 6 then d - 180 - l
      else if m = 7 then d - 211 - l
      else if m = 8 then d - 242 - l
      else if m = 9 then d - 272 - l
      else if m = 10 then d - 303 - l
      else d - 333 - l)"

text \<open>
  \<^verbatim>\<open>MakeDay(year, month, date)\<close>: the day number of the first of the month
  \<open>month mod 12\<close> of the year \<open>year + month div 12\<close>, plus \<open>date - 1\<close>.
\<close>

definition firstOfMonth :: "int \<Rightarrow> int \<Rightarrow> int" where
  "firstOfMonth mn l =
     (if mn = 0 then 0
      else if mn = 1 then 31
      else if mn = 2 then 59 + l
      else if mn = 3 then 90 + l
      else if mn = 4 then 120 + l
      else if mn = 5 then 151 + l
      else if mn = 6 then 181 + l
      else if mn = 7 then 212 + l
      else if mn = 8 then 243 + l
      else if mn = 9 then 273 + l
      else if mn = 10 then 304 + l
      else 334 + l)"

definition MakeDay :: "int \<Rightarrow> int \<Rightarrow> int \<Rightarrow> int" where
  "MakeDay year month date =
     (let ym = year + month div 12; mn = month mod 12;
          l = (if DaysInYear ym = 366 then 1 else 0)
      in DayFromYear ym + firstOfMonth mn l + date - 1)"

definition MakeDate :: "int \<Rightarrow> int \<Rightarrow> int" where
  "MakeDate day time = day * msPerDay + time"

text \<open>\<^verbatim>\<open>TimeClip\<close>: a time value beyond 8.64e15 ms is NaN, here \<open>None\<close>.\<close>

definition TimeClip :: "int \<Rightarrow> int option" where
  "TimeClip t = (if \<bar>t\<bar> > 8640000000000000 then None else Some t)"

text \<open>
  The host: the reading of the clock that \<^verbatim>\<open>new Date()\<close> returns, and the offset
  of its local time zone from UTC in milliseconds (a zone with a constant offset).
\<close>

record host =
  now :: int
  tza :: int

definition LocalTime :: "host \<Rightarrow> int \<Rightarrow> int" where
  "LocalTime h t = t + tza h"

definition UTC :: "host \<Rightarrow> int \<Rightarrow> int" where
  "UTC h t = t - tza h"

definition getDate :: "host \<Rightarrow> int \<Rightarrow> int" where
  "getDate h t = DateFromTime (LocalTime h t)"

definition getFullYear :: "host \<Rightarrow> int \<Rightarrow> int" where
  "getFullYear h t = YearFromTime (LocalTime h t)"

definition setDate :: "host \<Rightarrow> int \<Rightarrow> int \<Rightarrow> int option" where
  "setDate h t dt =
     (let lt = LocalTime h t;
          newDate = MakeDate (MakeDay (YearFromTime lt) (MonthFromTime lt) dt) (TimeWithinDay lt)
      in TimeClip (UTC h newDate))"

definition setFullYear :: "host \<Rightarrow> int \<Rightarrow> int \<Rightarrow> int option" where
  "setFullYear h t y =
     (let lt = LocalTime h t;
          newDate = MakeDate (MakeDay y (MonthFromTime lt) (DateFromTime lt)) (TimeWithinDay lt)
      in TimeClip (UTC h newDate))"

section \<open>Time-based analytics\<close>

definition getTimeThreshold :: "host \<Rightarrow> string \<Rightarrow> int option" where
  "getTimeThreshold h rng =
     (let date = now h in
      if rng = ''week'' then setDate h date (getDate h date - 7)
      else if rng = ''month'' then setDate h date (getDate h date - 30)
      else if rng = ''quarter'' then setDate h date (getDate h date - 90)
      else if rng = ''year'' then setFullYear h date (getFullYear h date - 1)
      else setDate h date (getDate h date - 30))"

text \<open>\<^verbatim>\<open>a >= b\<close> on two dates compares their time values; with a NaN it is false.\<close>

fun date_ge :: "int option \<Rightarrow> int option \<Rightarrow> bool" where
  "date_ge (Some a) (Some b) = (a \<ge> b)"
| "date_ge _ _ = False"

definition recentArrivals :: "host \<Rightarrow> string \<Rightarrow> worker list \<Rightarrow> worker list" where
  "recentArrivals h timeRange workers =
     filter (\<lambda>w. date_ge (new_Date (dateEntree w)) (getTimeThreshold h timeRange)
                  \<and> statut w = Actif) workers"

definition recentExits :: "host \<Rightarrow> string \<Rightarrow> worker list \<Rightarrow> worker list" where
  "recentExits h timeRange workers =
     filter (\<lambda>w. truthy_date (dateSortie w)
                  \<and> date_ge (new_Date (dateSortie w)) (getTimeThreshold h timeRange))
       (exitedWorkers workers)"

section \<open>Exit analysis\<close>

text \<open>
  Strings are read as their UTF-8 bytes. The default label is the French for
  ``not specified''; each of its two accented letters is the pair of bytes C3 A9.
\<close>

definition Non_specifie :: string where
  "Non_specifie = ''Non sp'' @ [CHR 0xC3, CHR 0xA9] @ ''cifi'' @ [CHR 0xC3, CHR 0xA9]"

text \<open>\<^verbatim>\<open>worker.motif || 'Non sp...'\<close>: an absent and an empty reason take the default.\<close>

definition reason :: "worker \<Rightarrow> string" where
  "reason w =
     (case motif w of None \<Rightarrow> Non_specifie
      | Some s \<Rightarrow> if s = [] then Non_specifie else s)"

text \<open>
  \<^verbatim>\<open>exitReasons\<close> is a plain object used as a table of counts. Its own properties are
  kept here in the order of their creation, and an assignment to a property that exists
  changes its value where it stands; \<^verbatim>\<open>acc[reason] = (acc[reason] || 0) + 1\<close> is the
  counting step again. Labels that name a member the object inherits from
  \<^verbatim>\<open>Object.prototype\<close> (such as \<^verbatim>\<open>constructor\<close>) are outside this model.
\<close>

definition exitReasons :: "worker list \<Rightarrow> (string \<times> nat) list" where
  "exitReasons workers =
     foldl (\<lambda>acc w. incr_key acc (reason w)) [] (exitedWorkers workers)"

text \<open>
  \<^verbatim>\<open>Object.entries\<close> lists the own properties in the order of ECMA-262's
  OrdinaryOwnPropertyKeys: first the keys that are array indices (the canonical decimal
  numerals below \<open>2\<^sup>3\<^sup>2 - 1\<close>) in ascending numeric order, then the other string keys in
  the order of their creation.
\<close>

definition is_digit :: "char \<Rightarrow> bool" where
  "is_digit c = (c \<in> set ''0123456789'')"

definition digit_val :: "char \<Rightarrow> int" where
  "digit_val c = of_char c - 48"

definition dec_val :: "string \<Rightarrow> int" where
  "dec_val s = foldl (\<lambda>n c. 10 * n + digit_val c) 0 s"

definition is_array_index :: "string \<Rightarrow> bool" where
  "is_array_index s =
     (s \<noteq> [] \<and> list_all is_digit s \<and> (length s = 1 \<or> take 1 s \<noteq> ''0'')
      \<and> dec_val s < 4294967295)"

definition Object_entries :: "(string \<times> nat) list \<Rightarrow> (string \<times> nat) list" where
  "Object_entries obj =
     sort_key (\<lambda>e. dec_val (fst e)) (filter (\<lambda>e. is_array_index (fst e)) obj)
       @ filter (\<lambda>e. \<not> is_array_index (fst e)) obj"

text \<open>
  \<^verbatim>\<open>.sort(([,a], [,b]) => b - a)\<close>: descending by count; \<^verbatim>\<open>Array.prototype.sort\<close>
  is stable. \<^verbatim>\<open>[0]\<close> of an empty array is \<^verbatim>\<open>undefined\<close>, here \<open>None\<close>.
\<close>

definition sortedExitReasons :: "worker list \<Rightarrow> (string \<times> nat) list" where
  "sortedExitReasons workers =
     sort_key (\<lambda>e. - int (snd e)) (Object_entries (exitReasons workers))"

definition topExitReason :: "worker list \<Rightarrow> (string \<times> nat) option" where
  "topExitReason workers =
     (case sortedExitReasons workers of [] \<Rightarrow> None | e # _ \<Rightarrow> Some e)"

section \<open>Length of stay\<close>

text \<open>\<^verbatim>\<open>Math.round\<close> rounds to the nearest integer, a half towards \<open>+\<infinity>\<close>.\<close>

definition Math_round :: "rat \<Rightarrow> int" where
  "Math_round x = \<lfloor>x + 1 / 2\<rfloor>"

text \<open>
  The stay of one worker in days, \<^verbatim>\<open>Math.floor\<close> of the difference of the two time
  values over the milliseconds of a day; \<open>None\<close> is NaN, when a date does not parse.
\<close>

definition stayDays :: "worker \<Rightarrow> int option" where
  "stayDays w =
     (case new_Date (dateEntree w) of None \<Rightarrow> None
      | Some entryDate \<Rightarrow>
          (case new_Date (dateSortie w) of None \<Rightarrow> None
           | Some exitDate \<Rightarrow> Some ((exitDate - entryDate) div (1000 * 60 * 60 * 24))))"

definition staysWithDuration :: "worker list \<Rightarrow> int option list" where
  "staysWithDuration workers =
     map stayDays
       (filter (\<lambda>w. truthy_date (dateEntree w) \<and> truthy_date (dateSortie w))
          (exitedWorkers workers))"

fun nan_add :: "int option \<Rightarrow> int option \<Rightarrow> int option" where
  "nan_add (Some a) (Some b) = Some (a + b)"
| "nan_add _ _ = None"

definition averageStayDuration :: "worker list \<Rightarrow> int option" where
  "averageStayDuration workers =
     (let stays = staysWithDuration workers in
      if length stays > 0
      then (case foldl nan_add (Some 0) stays of None \<Rightarrow> None
            | Some tot \<Rightarrow> Some (Math_round (of_int tot / of_nat (length stays))))
      else Some 0)"

section \<open>Age analysis\<close>

definition ages :: "worker list \<Rightarrow> int list" where
  "ages workers = map age (activeWorkers workers)"

definition averageAge :: "worker list \<Rightarrow> int" where
  "averageAge workers =
     (if length (ages workers) > 0
      then Math_round (of_int (foldl (\<lambda>sum a. sum + a) 0 (ages workers))
                         / of_nat (length (ages workers)))
      else 0)"

definition minAge :: "worker list \<Rightarrow> int" where
  "minAge workers = (case ages workers of [] \<Rightarrow> 0 | a # as \<Rightarrow> foldl min a as)"

definition maxAge :: "worker list \<Rightarrow> int" where
  "maxAge workers = (case ages workers of [] \<Rightarrow> 0 | a # as \<Rightarrow> foldl max a as)"

record ageBuckets =
  age_18_25 :: nat
  age_26_35 :: nat
  age_36_45 :: nat
  age_46_plus :: nat

definition ageDistribution :: "worker list \<Rightarrow> ageBuckets" where
  "ageDistribution workers =
     \<lparr> age_18_25 = length (filter (\<lambda>w. age w \<ge> 18 \<and> age w \<le> 25) (activeWorkers workers)),
       age_26_35 = length (filter (\<lambda>w. age w \<ge> 26 \<and> age w \<le> 35) (activeWorkers workers)),
       age_36_45 = length (filter (\<lambda>w. age w \<ge> 36 \<and> age w \<le> 45) (activeWorkers workers)),
       age_46_plus = length (filter (\<lambda>w. age w \<ge> 46) (activeWorkers workers)) \<rparr>"

section \<open>Efficiency metrics and indicators\<close>

definition turnoverRate :: "worker list \<Rightarrow> rat" where
  "turnoverRate workers =
     (if length workers > 0
      then (of_nat (length (exitedWorkers workers)) / of_nat (length workers)) * 100
      else 0)"

definition retentionRate :: "worker list \<Rightarrow> rat" where
  "retentionRate workers = 100 - turnoverRate workers"

definition utilizationRate :: "worker list \<Rightarrow> room list \<Rightarrow> rat" where
  "utilizationRate workers rooms = occupancyRate workers rooms"

definition isHighOccupancy :: "worker list \<Rightarrow> room list \<Rightarrow> bool" where
  "isHighOccupancy workers rooms = (occupancyRate workers rooms > 85)"

definition isLowOccupancy :: "worker list \<Rightarrow> room list \<Rightarrow> bool" where
  "isLowOccupancy workers rooms = (occupancyRate workers rooms < 50)"

definition hasRecentGrowth :: "host \<Rightarrow> string \<Rightarrow> worker list \<Rightarrow> bool" where
  "hasRecentGrowth h timeRange workers =
     (length (recentArrivals h timeRange workers) > length (recentExits h timeRange workers))"

definition balancedGender :: "worker list \<Rightarrow> bool" where
  "balancedGender workers =
     (\<bar>int (length (maleWorkers workers)) - int (length (femaleWorkers workers))\<bar>
        \<le> \<lceil>(of_nat (length (activeWorkers workers)) :: rat) * (2 / 10)\<rceil>)"

text \<open>\<^verbatim>\<open>Math.round(x * 100) / 100\<close>, the rounding to two decimals at the output.\<close>

definition round2 :: "rat \<Rightarrow> rat" where
  "round2 x = of_int (Math_round (x * 100)) / 100"

section \<open>The snapshot\<close>

text \<open>
  The object that the \<^verbatim>\<open>useMemo\<close> block returns. Its keys carry the suffix
  \<open>_out\<close> here, since most of them repeat the name of the local constant they show.
\<close>

record snapshot =
  totalWorkers_out :: nat
  totalInactiveWorkers_out :: nat
  maleWorkers_out :: nat
  femaleWorkers_out :: nat
  totalRooms_out :: nat
  maleRooms_out :: nat
  femaleRooms_out :: nat
  occupiedRooms_out :: nat
  emptyRooms_out :: nat
  fullRooms_out :: nat
  totalCapacity_out :: nat
  occupiedPlaces_out :: nat
  availablePlaces_out :: int
  occupancyRate_out :: rat
  recentArrivals_out :: nat
  recentExits_out :: nat
  netChange_out :: int
  averageAge_out :: int
  minAge_out :: int
  maxAge_out :: int
  ageDistribution_out :: ageBuckets
  averageStayDuration_out :: "int option"
  totalExitedWorkers_out :: nat
  exitReasons_out :: "(string \<times> nat) list"
  topExitReason_out :: string
  topExitReasonCount_out :: nat
  turnoverRate_out :: rat
  retentionRate_out :: rat
  utilizationRate_out :: rat
  isHighOccupancy_out :: bool
  isLowOccupancy_out :: bool
  hasRecentGrowth_out :: bool
  balancedGender_out :: bool
  occupancyTrend_out :: rat
  workersTrend_out :: rat

definition statistics :: "host \<Rightarrow> worker list \<Rightarrow> room list \<Rightarrow> string \<Rightarrow> snapshot" where
  "statistics h workers rooms timeRange =
     \<lparr> totalWorkers_out = length (activeWorkers workers),
       totalInactiveWorkers_out = length (inactiveWorkers workers),
       maleWorkers_out = length (maleWorkers workers),
       femaleWorkers_out = length (femaleWorkers workers),
       totalRooms_out = length rooms,
       maleRooms_out = length (maleRooms rooms),
       femaleRooms_out = length (femaleRooms rooms),
       occupiedRooms_out = length (occupiedRooms rooms),
       emptyRooms_out = length (emptyRooms rooms),
       fullRooms_out = length (fullRooms rooms),
       totalCapacity_out = totalCapacity rooms,
       occupiedPlaces_out = occupiedPlaces workers,
       availablePlaces_out = availablePlaces workers rooms,
       occupancyRate_out = round2 (occupancyRate workers rooms),
       recentArrivals_out = length (recentArrivals h timeRange workers),
       recentExits_out = length (recentExits h timeRange workers),
       netChange_out = int (length (recentArrivals h timeRange workers))
                         - int (length (recentExits h timeRange workers)),
       averageAge_out = averageAge workers,
       minAge_out = minAge workers,
       maxAge_out = maxAge workers,
       ageDistribution_out = ageDistribution workers,
       averageStayDuration_out = averageStayDuration workers,
       totalExitedWorkers_out = length (exitedWorkers workers),
       exitReasons_out = exitReasons workers,
       topExitReason_out = (case topExitReason workers of None \<Rightarrow> ''Aucune'' | Some e \<Rightarrow> fst e),
       topExitReasonCount_out = (case topExitReason workers of None \<Rightarrow> 0 | Some e \<Rightarrow> snd e),
       turnoverRate_out = round2 (turnoverRate workers),
       retentionRate_out = round2 (retentionRate workers),
       utilizationRate_out = round2 (utilizationRate workers rooms),
       isHighOccupancy_out = isHighOccupancy workers rooms,
       isLowOccupancy_out = isLowOccupancy workers rooms,
       hasRecentGrowth_out = hasRecentGrowth h timeRange workers,
       balancedGender_out = balancedGender workers,
       occupancyTrend_out = (if hasRecentGrowth h timeRange workers then 85 / 10 else - (32 / 10)),
       workersTrend_out =
         (if length (recentArrivals h timeRange workers) > 0 then 121 / 10 else - (54 / 10)) \<rparr>"

section \<open>The occupancy reconciler\<close>

text \<open>
  Modelled from the spec: the room key and the derived occupancy of
  \<^verbatim>\<open>@/utils/syncUtils\<close>, which the page imports (\<^verbatim>\<open>forceSyncRoomOccupancy\<close>,
  \<^verbatim>\<open>getOccupancySummary\<close>) and whose source is not among the files. After section 4.1:
  the room key is the farm, the room number and the gender restriction; a worker's key
  takes the restriction from the worker's sex; the derived counts are built by a scan
  of the active workers with a non-empty room assignment; a room's derived count is the
  count under its key, 0 when there is none; a room is inconsistent when its stored
  count differs from its derived count.
\<close>

type_synonym RoomKey = "string \<times> string \<times> room_genre"

definition genderRestrictionOf :: "worker_sexe \<Rightarrow> room_genre" where
  "genderRestrictionOf s = (case s of Homme \<Rightarrow> Hommes | Femme \<Rightarrow> Femmes)"

definition workerRoomKey :: "worker \<Rightarrow> RoomKey" where
  "workerRoomKey w =
     (fermeId w, (case chambre w of None \<Rightarrow> [] | Some c \<Rightarrow> c), genderRestrictionOf (sexe w))"

definition roomRoomKey :: "room \<Rightarrow> RoomKey" where
  "roomRoomKey r = (roomFermeId r, roomNumber r, genre r)"

definition derivedCounts :: "worker list \<Rightarrow> (RoomKey \<times> nat) list" where
  "derivedCounts workers =
     foldl (\<lambda>m w. incr_key m (workerRoomKey w)) [] (filter housed workers)"

definition derivedCount :: "worker list \<Rightarrow> room \<Rightarrow> nat" where
  "derivedCount workers r = get_or_0 (derivedCounts workers) (roomRoomKey r)"

definition inconsistent :: "worker list \<Rightarrow> room \<Rightarrow> bool" where
  "inconsistent workers r = (occupantsActuels r \<noteq> int (derivedCount workers r))"

text \<open>
  Modelled from the spec: the entries of \<^verbatim>\<open>inconsistenciesFound\<close> and the
  \<^verbatim>\<open>SyncResult\<close>. The page reads the keys \<^verbatim>\<open>roomNumber\<close>, \<^verbatim>\<open>oldOccupants\<close>,
  \<^verbatim>\<open>newOccupants\<close> and \<^verbatim>\<open>workerNames\<close> of an entry; the two keys that repeat
  a name of the room record carry the prefix \<open>found_\<close> here.
\<close>

record inconsistency =
  found_roomId :: string
  found_roomNumber :: string
  oldOccupants :: int
  newOccupants :: int
  workerNames :: "string list"

record SyncResult =
  totalRoomsChecked :: nat
  roomsUpdated :: nat
  inconsistenciesFound :: "inconsistency list"

text \<open>
  Modelled from the spec: the write interface \<^verbatim>\<open>UpdateRoomOccupancy(roomId, newCount)\<close>
  of the record store (section 6), for a store that applies every write: the room of
  that identity takes the new count. Writes that fail are not modelled.
\<close>

definition UpdateRoomOccupancy :: "string \<Rightarrow> int \<Rightarrow> room list \<Rightarrow> room list" where
  "UpdateRoomOccupancy rid newCount store =
     map (\<lambda>r. if roomId r = rid then r\<lparr>occupantsActuels := newCount\<rparr> else r) store"

text \<open>
  Modelled from the spec: the repair operation \<^verbatim>\<open>Reconcile\<close> (\<^verbatim>\<open>Sync\<close>), imported
  by the page as \<^verbatim>\<open>forceSyncRoomOccupancy\<close>. Every inconsistent room gets an entry with
  its identity and number, the old and the new count and the names of the workers now
  attributed to it, and one write of its derived count. The result is the
  \<^verbatim>\<open>SyncResult\<close> together with the rooms as the store holds them after the writes.
\<close>

definition found_entry :: "worker list \<Rightarrow> room \<Rightarrow> inconsistency" where
  "found_entry workers r =
     \<lparr> found_roomId = roomId r, found_roomNumber = roomNumber r,
       oldOccupants = occupantsActuels r, newOccupants = int (derivedCount workers r),
       workerNames =
         map nom (filter (\<lambda>w. housed w \<and> workerRoomKey w = roomRoomKey r) workers) \<rparr>"

definition Reconcile :: "worker list \<Rightarrow> room list \<Rightarrow> SyncResult \<times> room list" where
  "Reconcile workers rooms =
     (let found = map (found_entry workers) (filter (inconsistent workers) rooms) in
      (\<lparr> totalRoomsChecked = length rooms, roomsUpdated = length found,
         inconsistenciesFound = found \<rparr>,
       foldl (\<lambda>store i. UpdateRoomOccupancy (found_roomId i) (newOccupants i) store)
         rooms found))"

text \<open>A room with its stored count overwritten by its derived count.\<close>

definition repaired :: "worker list \<Rightarrow> room \<Rightarrow> room" where
  "repaired workers r = r\<lparr>occupantsActuels := int (derivedCount workers r)\<rparr>"

text \<open>A room for men of capacity 4 with a stored count of 1, the room of \<open>worker0\<close>.\<close>

definition room0 :: room where
  "room0 = \<lparr> roomId = ''r1'', roomFermeId = ''f1'', roomNumber = ''12'', genre = Hommes,
       capaciteTotale = 4, occupantsActuels = 1 \<rparr>"

section \<open>Sample records\<close>

text \<open>A housed active worker, used where a property is shown on a concrete input.\<close>

definition worker0 :: worker where
  "worker0 = \<lparr> nom = ''A'', fermeId = ''f1'', statut = Actif, sexe = Homme, age = 30,
       dateEntree = DateAt 0, dateSortie = NoDate, motif = None, chambre = Some ''12'' \<rparr>"

text \<open>A host whose clock reads 2024-03-15T00:00:00Z, in the UTC zone.\<close>

definition host0 :: host where
  "host0 = \<lparr> now = 1710460800000, tza = 0 \<rparr>"

text \<open>A worker who has left, and a scope of 32 workers of which one has left.\<close>

definition leaver0 :: worker where
  "leaver0 = \<lparr> nom = ''B'', fermeId = ''f1'', statut = Inactif, sexe = Femme, age = 41,
       dateEntree = DateAt 1700000000000, dateSortie = DateAt 1709596800000,
       motif = Some ''contract_end'', chambre = None \<rparr>"


section \<open>The spec's reading of the length of stay\<close>






section \<open>The spec's reading of the time window\<close>



definition host1 :: host where
  "host1 = \<lparr> now = 1710547200000, tza = 0 \<rparr>"

definition newcomer :: worker where
  "newcomer = \<lparr> nom = ''E'', fermeId = ''f1'', statut = Actif, sexe = Homme, age = 22,
       dateEntree = DateAt 1709856000000, dateSortie = NoDate, motif = None,
       chambre = None \<rparr>"

section \<open>The spec's reading of the top exit reason\<close>









section \<open>Occupancy: properties\<close>

lemma foldl_plus_sum_list: "foldl (\<lambda>s c. s + c) a xs = a + sum_list (xs :: nat list)"
  by (induction xs arbitrary: a) simp_all

lemma get_or_0_Map_set:
  "get_or_0 (Map_set m k v) k' = (if k' = k then v else get_or_0 m k')"
  by (induction m) (auto simp: get_or_0_def)

lemma get_or_0_incr_key:
  "get_or_0 (incr_key m k) k' = (if k' = k then get_or_0 m k + 1 else get_or_0 m k')"
  by (simp add: incr_key_def get_or_0_Map_set)

lemma sum_values_incr_key:
  "sum_list (map snd (incr_key m k)) = sum_list (map snd m) + 1"
  unfolding incr_key_def by (induction m) (auto simp: get_or_0_def)

lemma sum_values_count:
  "sum_list (map snd (foldl (\<lambda>m x. incr_key m (key x)) m0 xs))
     = sum_list (map snd m0) + length xs"
  by (induction xs arbitrary: m0) (simp_all add: sum_values_incr_key)


lemma get_or_0_Nil: "get_or_0 [] k = 0"
  by (simp add: get_or_0_def)

lemma occupiedPlaces_length: "occupiedPlaces workers = length (filter housed workers)"
  by (simp add: occupiedPlaces_def workerRoomMap_def Map_values_def foldl_plus_sum_list sum_values_count)


text \<open>
  Claim C9. The available places are the total capacity minus the occupied places, with
  no clamping: occupied plus available places always give back the total capacity, and
  with one housed worker and no room the available places are \<open>-1\<close>.
\<close>

theorem availablePlaces_conservation:
  "availablePlaces_out (statistics h workers rooms timeRange)
     = int (totalCapacity_out (statistics h workers rooms timeRange))
       - int (occupiedPlaces_out (statistics h workers rooms timeRange))
   \<and> int (occupiedPlaces_out (statistics h workers rooms timeRange))
       + availablePlaces_out (statistics h workers rooms timeRange)
     = int (totalCapacity_out (statistics h workers rooms timeRange))
   \<and> availablePlaces_out (statistics h [worker0] [] timeRange) = - 1"
proof -
  have "occupiedPlaces [worker0] = 1"
    by (simp add: occupiedPlaces_length housed_def worker0_def)
  then show ?thesis
    by (simp add: statistics_def availablePlaces_def totalCapacity_def)
qed

lemma Math_round_0: "Math_round 0 = 0"
  unfolding Math_round_def by linarith

lemma round2_0: "round2 0 = 0"
  by (simp add: round2_def Math_round_0)

lemma Math_round_near: "\<bar>of_int (Math_round x) - x\<bar> \<le> 1 / 2"
  unfolding Math_round_def by linarith

lemma round2_near: "\<bar>round2 x - x\<bar> \<le> 1 / 200"
proof -
  have "\<bar>of_int (Math_round (x * 100)) - x * 100\<bar> \<le> 1 / 2"
    by (rule Math_round_near)
  then show ?thesis
    unfolding round2_def by (simp add: abs_le_iff field_simps)
qed

text \<open>
  Claim C10. The occupancy rate is the occupied places over the total capacity, times
  100, and 0 when the total capacity is 0. The snapshot shows it rounded to two
  decimals, so within \<open>1/200\<close> of it. With no worker and no room the snapshot has an
  occupancy rate of 0 and 0 available places.
\<close>

theorem occupancyRate_formula:
  "occupancyRate workers rooms
     = (if totalCapacity rooms = 0 then 0
        else of_nat (occupiedPlaces workers) / of_nat (totalCapacity rooms) * 100)
   \<and> \<bar>occupancyRate_out (statistics h workers rooms timeRange) - occupancyRate workers rooms\<bar>
       \<le> 1 / 200
   \<and> occupancyRate_out (statistics h [] [] timeRange) = 0
   \<and> availablePlaces_out (statistics h [] [] timeRange) = 0"
proof -
  have "occupiedPlaces [] = 0" "totalCapacity [] = 0"
    by (simp_all add: occupiedPlaces_length totalCapacity_def)
  then have "occupancyRate_out (statistics h [] [] timeRange) = 0"
    "availablePlaces_out (statistics h [] [] timeRange) = 0"
    by (simp_all add: statistics_def occupancyRate_def availablePlaces_def round2_0)
  moreover have "\<bar>occupancyRate_out (statistics h workers rooms timeRange) - occupancyRate workers rooms\<bar>
       \<le> 1 / 200"
    using round2_near [of "occupancyRate workers rooms"] by (simp add: statistics_def)
  ultimately show ?thesis
    by (simp add: occupancyRate_def)
qed

section \<open>Age histogram: properties\<close>

lemma bucket_partition:
  "length (filter (\<lambda>w. age w \<ge> 18 \<and> age w \<le> 25) ws)
   + length (filter (\<lambda>w. age w \<ge> 26 \<and> age w \<le> 35) ws)
   + length (filter (\<lambda>w. age w \<ge> 36 \<and> age w \<le> 45) ws)
   + length (filter (\<lambda>w. age w \<ge> 46) ws)
   + length (filter (\<lambda>w. age w < 18) ws) = length (ws :: worker list)"
  by (induction ws) auto

text \<open>
  Claim C8. The age histogram over the active workers has the four buckets 18-25, 26-35,
  36-45 and 46+, each closed at both ends but the last, which is open above. Workers
  under 18 are in no bucket. The four counts and the number of active workers under 18
  add up to the number of active workers.
\<close>

theorem ageDistribution_complete:
  "age_18_25 (ageDistribution workers) + age_26_35 (ageDistribution workers)
     + age_36_45 (ageDistribution workers) + age_46_plus (ageDistribution workers)
     + length (filter (\<lambda>w. age w < 18) (activeWorkers workers))
   = length (activeWorkers workers)
   \<and> age_18_25 (ageDistribution workers)
       = length (filter (\<lambda>w. statut w = Actif \<and> 18 \<le> age w \<and> age w \<le> 25) workers)
   \<and> age_26_35 (ageDistribution workers)
       = length (filter (\<lambda>w. statut w = Actif \<and> 26 \<le> age w \<and> age w \<le> 35) workers)
   \<and> age_36_45 (ageDistribution workers)
       = length (filter (\<lambda>w. statut w = Actif \<and> 36 \<le> age w \<and> age w \<le> 45) workers)
   \<and> age_46_plus (ageDistribution workers)
       = length (filter (\<lambda>w. statut w = Actif \<and> 46 \<le> age w) workers)
   \<and> ageDistribution (filter (\<lambda>w. age w < 18) workers)
       = \<lparr> age_18_25 = 0, age_26_35 = 0, age_36_45 = 0, age_46_plus = 0 \<rparr>
   \<and> ageDistribution_out (statistics h workers rooms timeRange) = ageDistribution workers"
proof -
  have "age_18_25 (ageDistribution workers) + age_26_35 (ageDistribution workers)
     + age_36_45 (ageDistribution workers) + age_46_plus (ageDistribution workers)
     + length (filter (\<lambda>w. age w < 18) (activeWorkers workers))
   = length (activeWorkers workers)"
    using bucket_partition [of "activeWorkers workers"] by (simp add: ageDistribution_def)
  moreover have "ageDistribution (filter (\<lambda>w. age w < 18) workers)
       = \<lparr> age_18_25 = 0, age_26_35 = 0, age_36_45 = 0, age_46_plus = 0 \<rparr>"
    by (simp add: ageDistribution_def activeWorkers_def)
  ultimately show ?thesis
    by (simp add: ageDistribution_def activeWorkers_def statistics_def conj_commute conj_left_commute)
qed

section \<open>Turnover and retention: properties\<close>







section \<open>Length of stay: properties\<close>





section \<open>Dates: properties\<close>

text \<open>
  Going back \<open>n\<close> days with \<^verbatim>\<open>setDate(getDate() - n)\<close> subtracts \<open>n\<close> days of
  milliseconds, whatever the date; going back one year with
  \<^verbatim>\<open>setFullYear(getFullYear() - 1)\<close> subtracts 365 or 366 days.
\<close>

lemma MonthFromTime_range: "0 \<le> MonthFromTime t \<and> MonthFromTime t \<le> 11"
  by (simp add: MonthFromTime_def Let_def)

lemma MonthFromTime_div_mod: "MonthFromTime t div 12 = 0" "MonthFromTime t mod 12 = MonthFromTime t"
  using MonthFromTime_range [of t] by simp_all

lemma date_within_month:
  "firstOfMonth (MonthFromTime t) (InLeapYear t) + DateFromTime t - 1 = DayWithinYear t"
  by (simp add: firstOfMonth_def DateFromTime_def MonthFromTime_def Let_def)

lemma InLeapYear_alt: "(if DaysInYear (YearFromTime t) = 366 then 1 else 0) = InLeapYear t"
  by (simp add: InLeapYear_def)

lemma MakeDay_of_time:
  "MakeDay (YearFromTime t) (MonthFromTime t) (DateFromTime t - n) = Day t - n"
proof -
  have "MakeDay (YearFromTime t) (MonthFromTime t) (DateFromTime t - n)
      = DayFromYear (YearFromTime t)
        + (firstOfMonth (MonthFromTime t) (InLeapYear t) + DateFromTime t - 1) - n"
    by (simp add: MakeDay_def Let_def MonthFromTime_div_mod InLeapYear_alt)
  also have "\<dots> = Day t - n"
    by (simp only: date_within_month) (simp add: DayWithinYear_def)
  finally show ?thesis .
qed

lemma MakeDate_Day: "MakeDate (Day t - n) (TimeWithinDay t) = t - n * msPerDay"
proof -
  have "Day t * msPerDay + TimeWithinDay t = t"
    by (simp add: Day_def TimeWithinDay_def)
  then show ?thesis
    by (simp add: MakeDate_def algebra_simps)
qed

lemma setDate_back: "setDate h t (getDate h t - n) = TimeClip (t - n * msPerDay)"
  by (simp add: setDate_def getDate_def Let_def MakeDay_of_time MakeDate_Day LocalTime_def UTC_def)



lemma DaysInYear_cases: "DaysInYear y = 365 \<or> DaysInYear y = 366"
  by (simp add: DaysInYear_def)








text \<open>
  The search of \<open>YearFromTime\<close> finds the year of the day: the largest year that
  starts on or before it.
\<close>

lemma DaysInYear_le: "DaysInYear y \<le> 366"
  by (simp add: DaysInYear_def)

lemma DayFromYear_1970: "DayFromYear 1970 = 0"
  by (simp add: DayFromYear_def)

lemma DayFromYear_after: "DayFromYear (1970 + int n) \<le> 366 * int n"
proof (induction n)
  case 0
  show ?case by (simp add: DayFromYear_1970)
next
  case (Suc n)
  have "DayFromYear (1970 + int n + 1) = DayFromYear (1970 + int n) + DaysInYear (1970 + int n)"
    by (rule DayFromYear_Suc)
  with Suc DaysInYear_le [of "1970 + int n"] show ?case
    by (simp add: algebra_simps)
qed

lemma DayFromYear_before: "DayFromYear (1970 - int n) \<le> - 365 * int n"
proof (induction n)
  case 0
  show ?case by (simp add: DayFromYear_1970)
next
  case (Suc n)
  have "DayFromYear (1970 - int (Suc n) + 1)
      = DayFromYear (1970 - int (Suc n)) + DaysInYear (1970 - int (Suc n))"
    by (rule DayFromYear_Suc)
  moreover have "1970 - int (Suc n) + 1 = 1970 - int n"
    by simp
  ultimately show ?case
    using Suc DaysInYear_pos [of "1970 - int (Suc n)"] by (simp add: algebra_simps)
qed

lemma year_search_start: "DayFromYear (1970 + min (d div 365) (d div 366)) \<le> d"
proof -
  define k where "k = min (d div 365) (d div 366)"
  have a: "365 * (d div 365) \<le> d" and b: "366 * (d div 366) \<le> d"
    by simp_all
  show ?thesis
  proof (cases "0 \<le> k")
    case True
    then have "DayFromYear (1970 + k) \<le> 366 * k"
      using DayFromYear_after [of "nat k"] by simp
    moreover have "k \<le> d div 366" by (simp add: k_def)
    ultimately show ?thesis using b unfolding k_def by linarith
  next
    case False
    then have "DayFromYear (1970 + k) \<le> 365 * k"
      using DayFromYear_before [of "nat (- k)"] by simp
    moreover have "k \<le> d div 365" by (simp add: k_def)
    ultimately show ?thesis using a unfolding k_def by linarith
  qed
qed

lemma year_search_bounds:
  "DayFromYear y \<le> d \<Longrightarrow>
     DayFromYear (year_search d y) \<le> d \<and> d < DayFromYear (year_search d y + 1)"
proof (induction d y rule: year_search.induct)
  case (1 d y)
  show ?case
  proof (cases "DayFromYear (y + 1) \<le> d")
    case True
    with "1.IH" show ?thesis
      by (simp add: year_search.simps [of d y])
  next
    case False
    with "1.prems" show ?thesis
      by (simp add: year_search.simps [of d y])
  qed
qed

lemma YearFromTime_bounds:
  "DayFromYear (YearFromTime t) \<le> Day t \<and> Day t < DayFromYear (YearFromTime t + 1)"
  unfolding YearFromTime_def by (rule year_search_bounds) (rule year_search_start)

lemma DayWithinYear_range: "0 \<le> DayWithinYear t \<and> DayWithinYear t < DaysInYear (YearFromTime t)"
  using YearFromTime_bounds [of t] DayFromYear_Suc [of "YearFromTime t"]
  by (simp add: DayWithinYear_def)

text \<open>
  \<open>MakeDay\<close> is what ECMA-262 asks for: the day it gives for the first of a month is
  a day whose year, month and date are that year, that month and 1.
\<close>

lemma DayFromYear_less_nat: "DayFromYear y < DayFromYear (y + 1 + int n)"
proof (induction n)
  case 0
  show ?case
    using DayFromYear_Suc [of y] DaysInYear_pos [of y] by simp
next
  case (Suc n)
  have "DayFromYear (y + 1 + int n + 1) = DayFromYear (y + 1 + int n) + DaysInYear (y + 1 + int n)"
    by (rule DayFromYear_Suc)
  with Suc DaysInYear_pos [of "y + 1 + int n"] show ?case
    by (simp add: algebra_simps)
qed

lemma DayFromYear_strict: "y < y' \<Longrightarrow> DayFromYear y < DayFromYear y'"
  using DayFromYear_less_nat [of y "nat (y' - y - 1)"] by simp

lemma DayFromYear_mono: "y \<le> y' \<Longrightarrow> DayFromYear y \<le> DayFromYear y'"
  using DayFromYear_strict [of y y'] by (cases "y = y'") simp_all

lemma YearFromTime_unique:
  assumes "DayFromYear y \<le> Day t" and "Day t < DayFromYear (y + 1)"
  shows "YearFromTime t = y"
proof (rule ccontr)
  assume ne: "YearFromTime t \<noteq> y"
  note b = YearFromTime_bounds [of t]
  show False
  proof (cases "YearFromTime t < y")
    case True
    then have "DayFromYear (YearFromTime t + 1) \<le> DayFromYear y"
      by (intro DayFromYear_mono) simp
    with b assms show False by linarith
  next
    case False
    with ne have "DayFromYear (y + 1) \<le> DayFromYear (YearFromTime t)"
      by (intro DayFromYear_mono) simp
    with b assms show False by linarith
  qed
qed

lemma Day_of_days: "Day (d * msPerDay) = d"
  by (simp add: Day_def msPerDay_def)

lemma firstOfMonth_range:
  "0 \<le> mn \<Longrightarrow> mn \<le> 11 \<Longrightarrow> (l = 0 \<or> l = 1) \<Longrightarrow>
     0 \<le> firstOfMonth mn l \<and> firstOfMonth mn l < 365 + l"
  by (auto simp: firstOfMonth_def)

lemma MakeDay_first_of_month:
  assumes "0 \<le> mn" and "mn \<le> 11"
  shows "YearFromTime (MakeDay y mn 1 * msPerDay) = y
     \<and> MonthFromTime (MakeDay y mn 1 * msPerDay) = mn
     \<and> DateFromTime (MakeDay y mn 1 * msPerDay) = 1"
proof -
  define l :: int where "l = (if DaysInYear y = 366 then 1 else 0)"
  define t where "t = MakeDay y mn 1 * msPerDay"
  have diy: "DaysInYear y = 365 + l"
    using DaysInYear_cases [of y] by (auto simp: l_def)
  have l01: "l = 0 \<or> l = 1"
    by (simp add: l_def)
  have mk: "MakeDay y mn 1 = DayFromYear y + firstOfMonth mn l"
    using assms by (simp add: MakeDay_def Let_def l_def)
  then have day: "Day t = DayFromYear y + firstOfMonth mn l"
    by (simp add: t_def Day_of_days)
  have r: "0 \<le> firstOfMonth mn l \<and> firstOfMonth mn l < 365 + l"
    using assms l01 by (rule firstOfMonth_range)
  have yr: "YearFromTime t = y"
  proof (rule YearFromTime_unique)
    show "DayFromYear y \<le> Day t"
      using day r by simp
    show "Day t < DayFromYear (y + 1)"
      using day r diy DayFromYear_Suc [of y] by simp
  qed
  have dwy: "DayWithinYear t = firstOfMonth mn l"
    by (simp add: DayWithinYear_def yr day)
  have leap: "InLeapYear t = l"
    by (simp add: InLeapYear_def yr l_def)
  have mn: "mn = 0 \<or> mn = 1 \<or> mn = 2 \<or> mn = 3 \<or> mn = 4 \<or> mn = 5 \<or> mn = 6 \<or> mn = 7
      \<or> mn = 8 \<or> mn = 9 \<or> mn = 10 \<or> mn = 11"
    using assms by arith
  have mo: "MonthFromTime t = mn"
    using mn l01 by (auto simp: MonthFromTime_def Let_def dwy leap firstOfMonth_def)
  have "DateFromTime t = 1"
    using mn l01 by (auto simp: DateFromTime_def Let_def mo dwy leap firstOfMonth_def)
  with yr mo show ?thesis
    by (simp add: t_def)
qed

section \<open>Time-based analytics: properties\<close>




text \<open>
  Claim C2, as amended. The snapshot depends on the clock, and only through the cutoff
  instant: two calls on the same workers and rooms that compute the same cutoff return
  the same snapshot, and any two calls on the same workers and rooms, whatever their
  clocks and selectors, agree on every key other than \<^verbatim>\<open>recentArrivals\<close>,
  \<^verbatim>\<open>recentExits\<close>, \<^verbatim>\<open>netChange\<close>, \<^verbatim>\<open>hasRecentGrowth\<close>,
  \<^verbatim>\<open>occupancyTrend\<close> and \<^verbatim>\<open>workersTrend\<close>.
\<close>

theorem snapshot_clock:
  "(getTimeThreshold h timeRange = getTimeThreshold h' timeRange'
      \<longrightarrow> statistics h workers rooms timeRange = statistics h' workers rooms timeRange')
   \<and> (statistics h workers rooms timeRange)
        \<lparr> recentArrivals_out := a, recentExits_out := b, netChange_out := c,
          hasRecentGrowth_out := d, occupancyTrend_out := e, workersTrend_out := f \<rparr>
     = (statistics h' workers rooms timeRange')
        \<lparr> recentArrivals_out := a, recentExits_out := b, netChange_out := c,
          hasRecentGrowth_out := d, occupancyTrend_out := e, workersTrend_out := f \<rparr>"
proof -
  have "statistics h workers rooms timeRange = statistics h' workers rooms timeRange'"
    if "getTimeThreshold h timeRange = getTimeThreshold h' timeRange'"
  proof -
    from that have "recentArrivals h timeRange workers = recentArrivals h' timeRange' workers"
      and "recentExits h timeRange workers = recentExits h' timeRange' workers"
      by (simp_all add: recentArrivals_def recentExits_def)
    then show ?thesis
      by (simp add: statistics_def hasRecentGrowth_def)
  qed
  moreover have "(statistics h workers rooms timeRange)
        \<lparr> recentArrivals_out := a, recentExits_out := b, netChange_out := c,
          hasRecentGrowth_out := d, occupancyTrend_out := e, workersTrend_out := f \<rparr>
     = (statistics h' workers rooms timeRange')
        \<lparr> recentArrivals_out := a, recentExits_out := b, netChange_out := c,
          hasRecentGrowth_out := d, occupancyTrend_out := e, workersTrend_out := f \<rparr>"
    by (simp add: statistics_def)
  ultimately show ?thesis by blast
qed

theorem snapshot_clock_witness:
  "getTimeThreshold host0 ''month'' = getTimeThreshold host0 ''trimester''
   \<and> statistics host0 [newcomer, leaver0] [] ''month''
       = statistics host0 [newcomer, leaver0] [] ''trimester''"
proof -
  have "getTimeThreshold host0 ''month'' = getTimeThreshold host0 ''trimester''"
    by (simp add: getTimeThreshold_def)
  then show ?thesis
    using snapshot_clock [of host0 "''month''" host0 "''trimester''" "[newcomer, leaver0]" "[]"]
    by simp
qed

text \<open>
  The same workers, rooms and selector at two readings of the clock, one day apart: the
  worker who arrived seven days before the first reading is a recent arrival at the
  first and none at the second.
\<close>

theorem snapshot_clock_counterexample:
  "recentArrivals_out (statistics host0 [newcomer] [] ''week'') = 1
   \<and> recentArrivals_out (statistics host1 [newcomer] [] ''week'') = 0
   \<and> statistics host0 [newcomer] [] ''week'' \<noteq> statistics host1 [newcomer] [] ''week''"
proof -
  have t0: "getTimeThreshold host0 ''week'' = Some 1709856000000"
    by (simp add: getTimeThreshold_def setDate_back TimeClip_def host0_def msPerDay_def)
  have t1: "getTimeThreshold host1 ''week'' = Some 1709942400000"
    by (simp add: getTimeThreshold_def setDate_back TimeClip_def host1_def msPerDay_def)
  have d: "dateEntree newcomer = DateAt 1709856000000" "statut newcomer = Actif"
    by (simp_all add: newcomer_def)
  have a0: "recentArrivals_out (statistics host0 [newcomer] [] ''week'') = 1"
    by (simp add: statistics_def recentArrivals_def t0 d)
  have a1: "recentArrivals_out (statistics host1 [newcomer] [] ''week'') = 0"
    by (simp add: statistics_def recentArrivals_def t1 d)
  from a0 a1 have "statistics host0 [newcomer] [] ''week'' \<noteq> statistics host1 [newcomer] [] ''week''"
    by (metis zero_neq_one)
  with a0 a1 show ?thesis by simp
qed

section \<open>Exit analysis: properties\<close>




























section \<open>Reconciliation: properties\<close>

lemma derivedCount_key:
  "roomRoomKey r = roomRoomKey r' \<Longrightarrow> derivedCount workers r = derivedCount workers r'"
  by (simp add: derivedCount_def)

lemma roomRoomKey_update [simp]: "roomRoomKey (r\<lparr>occupantsActuels := n\<rparr>) = roomRoomKey r"
  by (simp add: roomRoomKey_def)

lemma derivedCount_update [simp]:
  "derivedCount workers (r\<lparr>occupantsActuels := n\<rparr>) = derivedCount workers r"
  by (simp add: derivedCount_def)

lemma writes_by_id:
  "(\<And>r b. r \<in> set store \<Longrightarrow> b \<in> set bad \<Longrightarrow> roomId r = roomId b
       \<Longrightarrow> roomRoomKey r = roomRoomKey b) \<Longrightarrow>
   foldl (\<lambda>store i. UpdateRoomOccupancy (found_roomId i) (newOccupants i) store) store
       (map (found_entry workers) bad)
     = map (\<lambda>r. if roomId r \<in> roomId ` set bad then repaired workers r else r) store"
proof (induction bad arbitrary: store)
  case Nil
  show ?case by simp
next
  case (Cons b bad)
  define store' where
    "store' = UpdateRoomOccupancy (roomId b) (int (derivedCount workers b)) store"
  have s': "store' = map (\<lambda>r. if roomId r = roomId b then repaired workers r else r) store"
    unfolding store'_def UpdateRoomOccupancy_def
  proof (rule map_cong [OF refl])
    fix r assume r: "r \<in> set store"
    have "derivedCount workers r = derivedCount workers b" if "roomId r = roomId b"
    proof (rule derivedCount_key)
      show "roomRoomKey r = roomRoomKey b"
        using Cons.prems [of r b] r that by simp
    qed
    then show "(if roomId r = roomId b then r\<lparr>occupantsActuels := int (derivedCount workers b)\<rparr> else r)
        = (if roomId r = roomId b then repaired workers r else r)"
      by (simp add: repaired_def)
  qed
  have keep: "\<And>r b'. r \<in> set store' \<Longrightarrow> b' \<in> set bad \<Longrightarrow> roomId r = roomId b'
       \<Longrightarrow> roomRoomKey r = roomRoomKey b'"
  proof -
    fix r b' assume r: "r \<in> set store'" and b': "b' \<in> set bad" and e: "roomId r = roomId b'"
    from r obtain r0 where r0: "r0 \<in> set store"
      and rr: "r = (if roomId r0 = roomId b then repaired workers r0 else r0)"
      unfolding s' by auto
    from rr have "roomId r = roomId r0" "roomRoomKey r = roomRoomKey r0"
      by (simp_all add: repaired_def)
    with Cons.prems [of r0 b'] r0 b' e show "roomRoomKey r = roomRoomKey b'"
      by simp
  qed
  have "foldl (\<lambda>store i. UpdateRoomOccupancy (found_roomId i) (newOccupants i) store) store
       (map (found_entry workers) (b # bad))
      = foldl (\<lambda>store i. UpdateRoomOccupancy (found_roomId i) (newOccupants i) store) store'
       (map (found_entry workers) bad)"
    by (simp add: store'_def found_entry_def)
  also have "\<dots> = map (\<lambda>r. if roomId r \<in> roomId ` set bad then repaired workers r else r) store'"
    using keep by (rule Cons.IH)
  also have "\<dots> = map (\<lambda>r. if roomId r \<in> roomId ` set (b # bad) then repaired workers r else r) store"
    unfolding s' by (auto simp: repaired_def)
  finally show ?case .
qed

lemma Reconcile_rooms:
  assumes "distinct (map roomId rooms)"
  shows "snd (Reconcile workers rooms)
     = map (\<lambda>r. if inconsistent workers r then repaired workers r else r) rooms"
proof -
  from assms have inj: "inj_on roomId (set rooms)"
    by (simp add: distinct_map)
  have "snd (Reconcile workers rooms)
      = map (\<lambda>r. if roomId r \<in> roomId ` set (filter (inconsistent workers) rooms)
                  then repaired workers r else r) rooms"
    unfolding Reconcile_def Let_def snd_conv
  proof (rule writes_by_id)
    fix r b assume "r \<in> set rooms" "b \<in> set (filter (inconsistent workers) rooms)"
      "roomId r = roomId b"
    with inj have "r = b" by (auto dest: inj_onD)
    then show "roomRoomKey r = roomRoomKey b" by simp
  qed
  also have "\<dots> = map (\<lambda>r. if inconsistent workers r then repaired workers r else r) rooms"
  proof (rule map_cong [OF refl])
    fix r assume r: "r \<in> set rooms"
    have "(roomId r \<in> roomId ` set (filter (inconsistent workers) rooms)) = inconsistent workers r"
      using r inj by (auto dest: inj_onD)
    then show "(if roomId r \<in> roomId ` set (filter (inconsistent workers) rooms)
                  then repaired workers r else r)
        = (if inconsistent workers r then repaired workers r else r)"
      by simp
  qed
  finally show ?thesis .
qed

text \<open>
  The occupied places of the statistics are the sum of the derived counts of the
  reconciler: both come from the same scan of the workers.
\<close>

lemma occupiedPlaces_derivedCounts:
  "occupiedPlaces workers = sum_list (map snd (derivedCounts workers))"
  by (simp add: occupiedPlaces_length derivedCounts_def sum_values_count)

lemma repaired_consistent: "\<not> inconsistent workers (repaired workers r)"
  by (simp add: inconsistent_def repaired_def)

lemma Reconcile_nothing:
  "list_all (\<lambda>r. \<not> inconsistent workers r) rooms \<Longrightarrow>
     Reconcile workers rooms
       = (\<lparr> totalRoomsChecked = length rooms, roomsUpdated = 0, inconsistenciesFound = [] \<rparr>, rooms)"
proof -
  assume "list_all (\<lambda>r. \<not> inconsistent workers r) rooms"
  then have "filter (inconsistent workers) rooms = []"
    by (simp add: list_all_iff filter_empty_conv)
  then show ?thesis
    by (simp add: Reconcile_def)
qed

text \<open>
  Claim C3. The repair is idempotent: on rooms with distinct identities, a second run
  on the same workers and on the rooms as the first run left them updates no room and
  finds no inconsistency, and leaves the rooms as they are. The first run counts as
  updated exactly the inconsistent rooms, overwrites their stored counts with the
  derived counts and leaves every consistent room untouched; after it every room is
  consistent.
\<close>

theorem Reconcile_idempotent:
  assumes "distinct (map roomId rooms)"
  shows "roomsUpdated (fst (Reconcile workers (snd (Reconcile workers rooms)))) = 0
     \<and> inconsistenciesFound (fst (Reconcile workers (snd (Reconcile workers rooms)))) = []
     \<and> snd (Reconcile workers (snd (Reconcile workers rooms))) = snd (Reconcile workers rooms)
     \<and> roomsUpdated (fst (Reconcile workers rooms))
         = length (filter (inconsistent workers) rooms)
     \<and> snd (Reconcile workers rooms)
         = map (\<lambda>r. if inconsistent workers r
                     then r\<lparr>occupantsActuels := int (derivedCount workers r)\<rparr> else r) rooms
     \<and> list_all (\<lambda>r. \<not> inconsistent workers r) (snd (Reconcile workers rooms))"
proof -
  define rooms1 where "rooms1 = snd (Reconcile workers rooms)"
  have r1: "rooms1 = map (\<lambda>r. if inconsistent workers r then repaired workers r else r) rooms"
    unfolding rooms1_def using assms by (rule Reconcile_rooms)
  have ok: "list_all (\<lambda>r. \<not> inconsistent workers r) rooms1"
    unfolding r1 by (auto simp: list_all_iff repaired_consistent)
  then have "Reconcile workers rooms1
      = (\<lparr> totalRoomsChecked = length rooms1, roomsUpdated = 0, inconsistenciesFound = [] \<rparr>,
         rooms1)"
    by (rule Reconcile_nothing)
  then have second: "roomsUpdated (fst (Reconcile workers rooms1)) = 0"
    "inconsistenciesFound (fst (Reconcile workers rooms1)) = []"
    "snd (Reconcile workers rooms1) = rooms1"
    by simp_all
  have first: "roomsUpdated (fst (Reconcile workers rooms))
         = length (filter (inconsistent workers) rooms)"
    by (simp add: Reconcile_def Let_def)
  have r1': "rooms1 = map (\<lambda>r. if inconsistent workers r
                     then r\<lparr>occupantsActuels := int (derivedCount workers r)\<rparr> else r) rooms"
    unfolding r1 by (simp add: repaired_def)
  from second first r1' ok show ?thesis
    unfolding rooms1_def by (intro conjI)
qed

theorem Reconcile_idempotent_witness:
  "distinct (map roomId [room0])
   \<and> roomsUpdated (fst (Reconcile [worker0, worker0] [room0])) = 1
   \<and> map occupantsActuels (snd (Reconcile [worker0, worker0] [room0])) = [2]
   \<and> roomsUpdated
        (fst (Reconcile [worker0, worker0] (snd (Reconcile [worker0, worker0] [room0])))) = 0
   \<and> inconsistenciesFound
        (fst (Reconcile [worker0, worker0] (snd (Reconcile [worker0, worker0] [room0])))) = []"
proof -
  have d: "distinct (map roomId [room0])"
    by simp
  have dc: "derivedCount [worker0, worker0] room0 = 2"
    by (simp add: derivedCount_def derivedCounts_def get_or_0_incr_key get_or_0_Nil housed_def
        workerRoomKey_def roomRoomKey_def genderRestrictionOf_def worker0_def room0_def)
  then have inc: "inconsistent [worker0, worker0] room0"
    by (simp add: inconsistent_def room0_def)
  note t = Reconcile_idempotent [OF d, of "[worker0, worker0]"]
  from t have a: "roomsUpdated
        (fst (Reconcile [worker0, worker0] (snd (Reconcile [worker0, worker0] [room0])))) = 0"
    and b: "inconsistenciesFound
        (fst (Reconcile [worker0, worker0] (snd (Reconcile [worker0, worker0] [room0])))) = []"
    by blast+
  from t have "roomsUpdated (fst (Reconcile [worker0, worker0] [room0]))
      = length (filter (inconsistent [worker0, worker0]) [room0])"
    by blast
  then have c: "roomsUpdated (fst (Reconcile [worker0, worker0] [room0])) = 1"
    by (simp add: inc)
  from t have "snd (Reconcile [worker0, worker0] [room0])
      = map (\<lambda>r. if inconsistent [worker0, worker0] r
                  then r\<lparr>occupantsActuels := int (derivedCount [worker0, worker0] r)\<rparr> else r)
          [room0]"
    by blast
  then have e: "map occupantsActuels (snd (Reconcile [worker0, worker0] [room0])) = [2]"
    by (simp add: inc dc)
  from d a b c e show ?thesis
    by (intro conjI)
qed

end
